theory Spec2Isabelle
  imports Main "HOL-Library.Word"
begin

section \<open>Data model\<close>

text \<open>
  A Go \<^verbatim>\<open>error\<close> value. \<open>Errorf msg\<close> is an error carrying the message \<open>msg\<close>
  (\<^verbatim>\<open>fmt.Errorf\<close>, or whatever a collaborator returned); \<open>IncompleteInput\<close> is the
  error kind the specification names for a missing required answer. A \<^verbatim>\<open>nil\<close>
  error is \<open>None :: error option\<close>.
\<close>

datatype error = Errorf string | IncompleteInput

text \<open>
  How a handler ends: it returns its \<^verbatim>\<open>error\<close> result (\<open>Return None\<close> is
  \<^verbatim>\<open>return nil\<close>), or it panics (\<^verbatim>\<open>args[0]\<close> on an empty slice).
\<close>

datatype ret = Return "error option" | Panic

text \<open>\<^verbatim>\<open>sdk.Coins\<close>: a list of denomination/amount pairs; \<^verbatim>\<open>Empty()\<close> is \<^verbatim>\<open>len(coins) == 0\<close>.\<close>

type_synonym Coins = "(string \<times> nat) list"

definition Empty :: "Coins \<Rightarrow> bool" where
  "Empty coins = (length coins = 0)"

text \<open>\<^verbatim>\<open>network.Prop\<close>: the three proposition constructors the handler uses.\<close>

datatype Prop =
    WithCampaignName string
  | WithCampaignMetadata string
  | WithCampaignTotalSupply Coins

text \<open>\<^verbatim>\<open>chain.Validator\<close>: every field is a Go string, \<^verbatim>\<open>""\<close> when never assigned.\<close>

record Validator =
  Name :: string
  Moniker :: string
  StakingAmount :: string
  CommissionRate :: string
  CommissionMaxRate :: string
  CommissionMaxChangeRate :: string
  MinSelfDelegation :: string
  GasPrices :: string
  Details :: string
  Identity :: string
  Website :: string
  SecurityContact :: string

text \<open>The part of the parsed genesis the handler reads.\<close>

record Genesis =
  StakeDenom :: string

text \<open>
  The \<^verbatim>\<open>*cobra.Command\<close> as the two handlers see it: the positional arguments,
  \<^verbatim>\<open>cmd.Flags().GetString(name)\<close> for the value of the string flag \<open>name\<close> (the
  handlers drop its error result) and \<^verbatim>\<open>getYes(cmd)\<close> for the yes-flag.
\<close>

record Command =
  args :: "string list"
  GetString :: "string \<Rightarrow> string"
  getYes :: bool

subsection \<open>The interactive quiz\<close>

text \<open>A pointer to one field of the validator under construction (\<^verbatim>\<open>&v.StakingAmount\<close>, ...).\<close>

datatype field =
    FName | FMoniker | FStakingAmount | FCommissionRate | FCommissionMaxRate
  | FCommissionMaxChangeRate | FMinSelfDelegation | FGasPrices | FDetails
  | FIdentity | FWebsite | FSecurityContact

fun store :: "field \<Rightarrow> string \<Rightarrow> Validator \<Rightarrow> Validator" where
  "store FName s v = v\<lparr>Name := s\<rparr>"
| "store FMoniker s v = v\<lparr>Moniker := s\<rparr>"
| "store FStakingAmount s v = v\<lparr>StakingAmount := s\<rparr>"
| "store FCommissionRate s v = v\<lparr>CommissionRate := s\<rparr>"
| "store FCommissionMaxRate s v = v\<lparr>CommissionMaxRate := s\<rparr>"
| "store FCommissionMaxChangeRate s v = v\<lparr>CommissionMaxChangeRate := s\<rparr>"
| "store FMinSelfDelegation s v = v\<lparr>MinSelfDelegation := s\<rparr>"
| "store FGasPrices s v = v\<lparr>GasPrices := s\<rparr>"
| "store FDetails s v = v\<lparr>Details := s\<rparr>"
| "store FIdentity s v = v\<lparr>Identity := s\<rparr>"
| "store FWebsite s v = v\<lparr>Website := s\<rparr>"
| "store FSecurityContact s v = v\<lparr>SecurityContact := s\<rparr>"

text \<open>
  Modelled from the spec: the package \<^verbatim>\<open>cliquiz\<close> (\<^verbatim>\<open>Question\<close>, \<^verbatim>\<open>NewQuestion\<close>,
  \<^verbatim>\<open>DefaultAnswer\<close>, \<^verbatim>\<open>Required\<close>) is not among the sources. The specification
  describes a question as a labelled text question with an optional default value and
  an optional required-non-empty constraint; \<open>answer\<close> is the pointer the answer is
  written through.
\<close>

record Question =
  question :: string
  answer :: field
  defaultAnswer :: "string option"
  required :: bool

text \<open>
  Modelled from the spec: the options \<^verbatim>\<open>cliquiz.DefaultAnswer\<close> and
  \<^verbatim>\<open>cliquiz.Required\<close>, which set the default value and the required-non-empty
  constraint of a question.
\<close>

datatype Option = DefaultAnswer string | Required

fun applyOption :: "Option \<Rightarrow> Question \<Rightarrow> Question" where
  "applyOption (DefaultAnswer d) q = q\<lparr>defaultAnswer := Some d\<rparr>"
| "applyOption Required q = q\<lparr>required := True\<rparr>"

text \<open>
  Modelled from the spec: \<^verbatim>\<open>cliquiz.NewQuestion\<close>, a question with no default value
  and no constraint, to which the options are applied in the order given.
\<close>

definition NewQuestion :: "string \<Rightarrow> field \<Rightarrow> Option list \<Rightarrow> Question" where
  "NewQuestion label ptr options =
     fold applyOption options
       \<lparr>question = label, answer = ptr, defaultAnswer = None, required = False\<rparr>"

text \<open>
  \<^verbatim>\<open>cliquiz.Ask\<close> is called with the questions and can change the validator only
  through the pointers they hold. Its outcome in one run is therefore, for each
  question in order, the string it wrote through that question's pointer (\<open>None\<close>
  when it wrote nothing), and the error it returned. \<open>writeAnswers\<close> applies the
  writes.
\<close>

type_synonym asked = "string option list \<times> error option"

fun writeAnswers :: "Question list \<Rightarrow> string option list \<Rightarrow> Validator \<Rightarrow> Validator" where
  "writeAnswers (q # qs) (w # ws) v =
     writeAnswers qs ws (case w of None \<Rightarrow> v | Some s \<Rightarrow> store (answer q) s v)"
| "writeAnswers qs ws v = v"

text \<open>
  Modelled from the spec: \<^verbatim>\<open>cliquiz.Ask\<close> is not among the sources. The questions are
  asked in the order given; \<open>typed\<close> is what the user enters for a label, the empty
  string when nothing is entered, in which case the default answer, if there is one,
  is taken. A required question whose answer is empty fails with \<open>IncompleteInput\<close>
  and nothing more is asked or written.
\<close>

fun specAsk :: "(string \<Rightarrow> string) \<Rightarrow> Question list \<Rightarrow> asked" where
  "specAsk typed [] = ([], None)"
| "specAsk typed (q # qs) =
     (let a = (if typed (question q) = [] then (case defaultAnswer q of None \<Rightarrow> [] | Some d \<Rightarrow> d)
               else typed (question q))
      in if required q \<and> a = [] then ([], Some IncompleteInput)
         else (Some a # fst (specAsk typed qs), snd (specAsk typed qs)))"

subsection \<open>Collaborators and observable actions\<close>

text \<open>
  Everything the handlers call outside the two source files, as the answers it gives
  in one run. \<open>'l\<close> is the chain-launch record, \<open>'c\<close> the campaign record; identifiers
  are \<^verbatim>\<open>uint64\<close>. Functions returning only an \<^verbatim>\<open>error\<close> give \<open>None\<close> for \<^verbatim>\<open>nil\<close>;
  functions returning a value and an \<^verbatim>\<open>error\<close> give \<open>Inl\<close> the error or \<open>Inr\<close> the
  value. \<open>Ask\<close> is the outcome of the quiz as described above, \<open>Bullet\<close> the
  constant \<^verbatim>\<open>clispinner.Bullet\<close>.
\<close>

record ('l, 'c) env =
  newNetworkBuilder :: "error option"
  ParseID :: "string \<Rightarrow> error + 64 word"
  GetByName :: "string \<Rightarrow> error option"
  IsChainHomeExist :: "64 word \<Rightarrow> error + (string \<times> bool)"
  promptRun :: "string \<Rightarrow> error + string"
  Network :: "error option"
  ChainLaunch :: "64 word \<Rightarrow> error + 'l"
  Chain :: "'l \<Rightarrow> error option"
  Init :: "error option"
  GenesisPath :: "error + string"
  ParseGenesisFromPath :: "string \<Rightarrow> error + Genesis"
  Ask :: "Question list \<Rightarrow> asked"
  InitAccount :: "Validator \<Rightarrow> string \<Rightarrow> error + string"
  Bullet :: string
  ParseCoinsNormalized :: "string \<Rightarrow> error + Coins"
  UpdateCampaign :: "64 word \<Rightarrow> Prop list \<Rightarrow> error option"
  Campaign :: "64 word \<Rightarrow> error + 'c"
  Marshal :: "'c \<Rightarrow> error + string"

text \<open>The calls a handler makes and the text it prints, in the order it makes them.\<close>

datatype ('l, 'c) event =
    EvParseCoinsNormalized string
  | EvNewNetworkBuilder
  | EvCleanup
  | EvParseID string
  | EvGetByName string
  | EvIsChainHomeExist "64 word"
  | EvSpinnerStop
  | EvSpinnerStart
  | EvSpinnerSetText string
  | EvPromptRun string
  | EvPrint string
  | EvNetwork
  | EvChainLaunch "64 word"
  | EvChain 'l
  | EvInit
  | EvGenesisPath
  | EvParseGenesisFromPath string
  | EvAsk "Question list"
  | EvInitAccount Validator string
  | EvUpdateCampaign "64 word" "Prop list"
  | EvCampaign "64 word"
  | EvMarshal 'c

type_synonym ('l, 'c) run = "('l, 'c) event list \<times> ret"

text \<open>\<open>after evs r\<close>: the actions \<open>evs\<close> happen, then the run \<open>r\<close>.\<close>

definition after :: "('l, 'c) event list \<Rightarrow> ('l, 'c) run \<Rightarrow> ('l, 'c) run" where
  "after evs r = (evs @ fst r, snd r)"

text \<open>\<^verbatim>\<open>defer nb.Cleanup()\<close>: runs when the handler returns, and also when it panics.\<close>

definition deferCleanup :: "('l, 'c) run \<Rightarrow> ('l, 'c) run" where
  "deferCleanup r = (fst r @ [EvCleanup], snd r)"

text \<open>\<^verbatim>\<open>fmt.Println(s)\<close> prints \<open>s\<close> and a newline.\<close>

definition Println :: "string \<Rightarrow> ('l, 'c) event" where
  "Println s = EvPrint (s @ [CHR 0x0A])"

section \<open>network campaign update\<close>

definition flagCampaignName :: string where
  "flagCampaignName = ''name''"

definition flagCampaignMetadata :: string where
  "flagCampaignMetadata = ''metadata''"

definition flagCampaignTotalSupply :: string where
  "flagCampaignTotalSupply = ''total-supply''"

text \<open>\<^verbatim>\<open>strings.Join\<close>.\<close>

fun Join :: "string list \<Rightarrow> string \<Rightarrow> string" where
  "Join [] sep = []"
| "Join [x] sep = x"
| "Join (x # y # ys) sep = x @ sep @ Join (y # ys) sep"

text \<open>Lines 73 to 83: the list of proposals, built by three guarded appends.\<close>

definition proposalsOf :: "string \<Rightarrow> string \<Rightarrow> Coins \<Rightarrow> Prop list" where
  "proposalsOf campaignName metadata totalSupply =
     (let proposals = [];
          proposals = (if campaignName \<noteq> [] then proposals @ [WithCampaignName campaignName]
                       else proposals);
          proposals = (if metadata \<noteq> [] then proposals @ [WithCampaignMetadata metadata]
                       else proposals);
          proposals = (if \<not> Empty totalSupply then proposals @ [WithCampaignTotalSupply totalSupply]
                       else proposals)
      in proposals)"

text \<open>Lines 85 to 102: submit, fetch the campaign again, render and print it.\<close>

definition submitAndShow :: "('l, 'c) env \<Rightarrow> 64 word \<Rightarrow> Prop list \<Rightarrow> ('l, 'c) run" where
  "submitAndShow env campaignID proposals =
     after [EvUpdateCampaign campaignID proposals]
       (case UpdateCampaign env campaignID proposals of
          Some err \<Rightarrow> ([], Return (Some err))
        | None \<Rightarrow>
            after [EvCampaign campaignID]
              (case Campaign env campaignID of
                 Inl err \<Rightarrow> ([], Return (Some err))
               | Inr campaign \<Rightarrow>
                   after [Println [], EvMarshal campaign]
                     (case Marshal env campaign of
                        Inl err \<Rightarrow> ([], Return (Some err))
                      | Inr info \<Rightarrow> ([EvSpinnerStop, EvPrint info], Return None))))"

text \<open>Lines 52 to 102, the part of the handler that runs under the deferred cleanup.\<close>

definition campaignUpdateBody ::
  "('l, 'c) env \<Rightarrow> Command \<Rightarrow> string \<Rightarrow> string \<Rightarrow> Coins \<Rightarrow> ('l, 'c) run" where
  "campaignUpdateBody env cmd campaignName metadata totalSupply =
     (case args cmd of
        [] \<Rightarrow> ([], Panic)
      | a # _ \<Rightarrow>
          after [EvParseID a]
            (case ParseID env a of
               Inl err \<Rightarrow> ([], Return (Some err))
             | Inr campaignID \<Rightarrow>
                 if campaignName = [] \<and> metadata = [] \<and> Empty totalSupply
                 then ([], Return (Some (Errorf
                        (''at least one of the flags '' @
                         Join [flagCampaignName, flagCampaignMetadata, flagCampaignTotalSupply] '', '' @
                         '' must be provided''))))
                 else
                   after [EvNetwork]
                     (case Network env of
                        Some err \<Rightarrow> ([], Return (Some err))
                      | None \<Rightarrow>
                          submitAndShow env campaignID
                            (proposalsOf campaignName metadata totalSupply))))"

definition networkCampaignUpdateHandler :: "('l, 'c) env \<Rightarrow> Command \<Rightarrow> ('l, 'c) run" where
  "networkCampaignUpdateHandler env cmd =
     (let campaignName = GetString cmd flagCampaignName;
          metadata = GetString cmd flagCampaignMetadata;
          campaignTotalSupply = GetString cmd flagCampaignTotalSupply
      in after [EvParseCoinsNormalized campaignTotalSupply]
           (case ParseCoinsNormalized env campaignTotalSupply of
              Inl err \<Rightarrow> ([], Return (Some err))
            | Inr totalSupply \<Rightarrow>
                after [EvNewNetworkBuilder]
                  (case newNetworkBuilder env of
                     Some err \<Rightarrow> ([], Return (Some err))
                   | None \<Rightarrow>
                       deferCleanup
                         (campaignUpdateBody env cmd campaignName metadata totalSupply))))"

section \<open>network chain init\<close>

definition flagValidatorAccount :: string where
  "flagValidatorAccount = ''validator-account''"

definition flagValidatorWebsite :: string where
  "flagValidatorWebsite = ''validator-website''"

definition flagValidatorDetails :: string where
  "flagValidatorDetails = ''validator-details''"

definition flagValidatorSecurityContact :: string where
  "flagValidatorSecurityContact = ''validator-security-contact''"

definition flagValidatorMoniker :: string where
  "flagValidatorMoniker = ''validator-moniker''"

definition flagValidatorIdentity :: string where
  "flagValidatorIdentity = ''validator-identity''"

definition flagValidatorSelfDelegation :: string where
  "flagValidatorSelfDelegation = ''validator-self-delegation''"

definition flagValidatorGasPrice :: string where
  "flagValidatorGasPrice = ''validator-gas-price''"

text \<open>
  Lines 167 to 188: the four questions of the quiz, each with the pointer its answer is
  written through and the options given to \<^verbatim>\<open>cliquiz.NewQuestion\<close>.
\<close>

definition questions :: "Question list" where
  "questions =
     [] @
     [NewQuestion ''Staking amount'' FStakingAmount
        [DefaultAnswer ''95000000stake'', Required],
      NewQuestion ''Commission rate'' FCommissionRate
        [DefaultAnswer ''0.10'', Required],
      NewQuestion ''Commission max rate'' FCommissionMaxRate
        [DefaultAnswer ''0.20'', Required],
      NewQuestion ''Commission max change rate'' FCommissionMaxChangeRate
        [DefaultAnswer ''0.01'', Required]]"

text \<open>
  \<^verbatim>\<open>askValidatorInfo\<close>. The Go function ends with
  \<^verbatim>\<open>return v, cliquiz.Ask(questions...)\<close>: the call writes the answers into \<^verbatim>\<open>v\<close>
  through the pointers and the handler then uses \<^verbatim>\<open>v\<close> with the answers in it, so the
  model returns the validator after the writes, together with the error of the call.
\<close>

definition askValidatorInfo :: "(Question list \<Rightarrow> asked) \<Rightarrow> Command \<Rightarrow> string \<Rightarrow> Validator \<times> error option" where
  "askValidatorInfo ask cmd stakeDenom =
     (let account = GetString cmd flagValidatorAccount;
          website = GetString cmd flagValidatorWebsite;
          details = GetString cmd flagValidatorDetails;
          securityContact = GetString cmd flagValidatorSecurityContact;
          moniker = GetString cmd flagValidatorMoniker;
          identity = GetString cmd flagValidatorIdentity;
          selfDelegation = GetString cmd flagValidatorSelfDelegation;
          gasPrice = GetString cmd flagValidatorGasPrice;
          gasPrice = (if gasPrice = [] then ''0'' @ stakeDenom else gasPrice);
          v = \<lparr>Name = account,
               Moniker = moniker,
               StakingAmount = [],
               CommissionRate = [],
               CommissionMaxRate = [],
               CommissionMaxChangeRate = [],
               MinSelfDelegation = selfDelegation,
               GasPrices = gasPrice,
               Details = details,
               Identity = identity,
               Website = website,
               SecurityContact = securityContact\<rparr>
      in (writeAnswers questions (fst (ask questions)) v, snd (ask questions)))"

text \<open>Lines 93 to 138: fetch the launch, initialise the chain, run the quiz, generate the gentx.\<close>

definition initAndGentx :: "('l, 'c) env \<Rightarrow> Command \<Rightarrow> 64 word \<Rightarrow> string \<Rightarrow> ('l, 'c) run" where
  "initAndGentx env cmd launchID validatorAccount =
     after [EvNetwork]
       (case Network env of
          Some err \<Rightarrow> ([], Return (Some err))
        | None \<Rightarrow>
     after [EvChainLaunch launchID]
       (case ChainLaunch env launchID of
          Inl err \<Rightarrow> ([], Return (Some err))
        | Inr chainLaunch \<Rightarrow>
     after [EvChain chainLaunch]
       (case Chain env chainLaunch of
          Some err \<Rightarrow> ([], Return (Some err))
        | None \<Rightarrow>
     after [EvInit]
       (case Init env of
          Some err \<Rightarrow> ([], Return (Some err))
        | None \<Rightarrow>
     after [EvGenesisPath]
       (case GenesisPath env of
          Inl err \<Rightarrow> ([], Return (Some err))
        | Inr genesisPath \<Rightarrow>
     after [EvParseGenesisFromPath genesisPath]
       (case ParseGenesisFromPath env genesisPath of
          Inl err \<Rightarrow> ([], Return (Some err))
        | Inr genesis \<Rightarrow>
     after [EvAsk questions]
       (case askValidatorInfo (Ask env) cmd (StakeDenom genesis) of
          (v, Some err) \<Rightarrow> ([], Return (Some err))
        | (v, None) \<Rightarrow>
     after [EvSpinnerSetText ''Generating your Gentx'', EvSpinnerStart,
            EvInitAccount v validatorAccount]
       (case InitAccount env v validatorAccount of
          Inl err \<Rightarrow> ([], Return (Some err))
        | Inr gentxPath \<Rightarrow>
            ([EvSpinnerStop,
              EvPrint (Bullet env @ '' Gentx generated: '' @ gentxPath @ [CHR 0x0A])],
             Return None)))))))))"

text \<open>The label of the confirmation prompt (\<^verbatim>\<open>fmt.Sprintf\<close>, lines 80 to 82).\<close>

definition overwriteLabel :: "string \<Rightarrow> string" where
  "overwriteLabel chainHome =
     ''The chain has already been initialized under: '' @ chainHome @
     ''. Would you like to overwrite the home directory''"

text \<open>Lines 59 to 138, the part of the handler that runs under the deferred cleanup.\<close>

definition chainInitBody :: "('l, 'c) env \<Rightarrow> Command \<Rightarrow> ('l, 'c) run" where
  "chainInitBody env cmd =
     (case args cmd of
        [] \<Rightarrow> ([], Panic)
      | a # _ \<Rightarrow>
     after [EvParseID a]
       (case ParseID env a of
          Inl err \<Rightarrow> ([], Return (Some err))
        | Inr launchID \<Rightarrow>
     (let validatorAccount = GetString cmd flagValidatorAccount in
     after [EvGetByName validatorAccount]
       (case GetByName env validatorAccount of
          Some err \<Rightarrow> ([], Return (Some err))
        | None \<Rightarrow>
     after [EvIsChainHomeExist launchID]
       (case IsChainHomeExist env launchID of
          Inl err \<Rightarrow> ([], Return (Some err))
        | Inr (chainHome, exist) \<Rightarrow>
            if \<not> getYes cmd \<and> exist
            then
              after [EvSpinnerStop, EvPromptRun (overwriteLabel chainHome)]
                (case promptRun env (overwriteLabel chainHome) of
                   Inl err \<Rightarrow> ([Println ''said no''], Return None)
                 | Inr _ \<Rightarrow>
                     after [EvSpinnerStart]
                       (initAndGentx env cmd launchID validatorAccount))
            else initAndGentx env cmd launchID validatorAccount)))))"

definition networkChainInitHandler :: "('l, 'c) env \<Rightarrow> Command \<Rightarrow> ('l, 'c) run" where
  "networkChainInitHandler env cmd =
     after [EvNewNetworkBuilder]
       (case newNetworkBuilder env of
          Some err \<Rightarrow> ([], Return (Some err))
        | None \<Rightarrow> deferCleanup (chainInitBody env cmd))"

section \<open>The specification's reading of the proposition list\<close>

text \<open>The campaign field a proposition changes, and the value it carries.\<close>

datatype campaignField = CName | CMetadata | CTotalSupply

fun propField :: "Prop \<Rightarrow> campaignField" where
  "propField (WithCampaignName _) = CName"
| "propField (WithCampaignMetadata _) = CMetadata"
| "propField (WithCampaignTotalSupply _) = CTotalSupply"

text \<open>A field is supplied when its flag is non-empty (the coin set, when it is not empty).\<close>

fun supplied :: "string \<Rightarrow> string \<Rightarrow> Coins \<Rightarrow> campaignField \<Rightarrow> bool" where
  "supplied campaignName metadata totalSupply CName = (campaignName \<noteq> [])"
| "supplied campaignName metadata totalSupply CMetadata = (metadata \<noteq> [])"
| "supplied campaignName metadata totalSupply CTotalSupply = (totalSupply \<noteq> [])"

fun propFor :: "string \<Rightarrow> string \<Rightarrow> Coins \<Rightarrow> campaignField \<Rightarrow> Prop" where
  "propFor campaignName metadata totalSupply CName = WithCampaignName campaignName"
| "propFor campaignName metadata totalSupply CMetadata = WithCampaignMetadata metadata"
| "propFor campaignName metadata totalSupply CTotalSupply = WithCampaignTotalSupply totalSupply"

text \<open>
  The specification's words: one proposition per supplied field, in the fixed order
  name, metadata, total supply.
\<close>

definition specProposals :: "string \<Rightarrow> string \<Rightarrow> Coins \<Rightarrow> Prop list" where
  "specProposals campaignName metadata totalSupply =
     map (propFor campaignName metadata totalSupply)
       (filter (supplied campaignName metadata totalSupply) [CName, CMetadata, CTotalSupply])"

section \<open>Example runs\<close>

text \<open>
  One environment for the end-to-end scenarios of the specification: account
  \<open>alice\<close> is known, launch 9 has a workspace already and launch 42 has none, the
  user answers the overwrite prompt with no (\<^verbatim>\<open>promptui\<close> then returns an error
  with an empty message), enters a staking amount at the quiz and accepts the defaults
  of the other questions.
\<close>

definition scenario :: "(string, string) env" where
  "scenario =
     \<lparr>newNetworkBuilder = None,
      ParseID = (\<lambda>s. if s = ''42'' then Inr 42 else if s = ''7'' then Inr 7
                     else if s = ''9'' then Inr 9 else Inl (Errorf ''error parsing ID'')),
      GetByName = (\<lambda>n. if n = ''alice'' then None else Some (Errorf ''account does not exist'')),
      IsChainHomeExist = (\<lambda>launchID. Inr (''/home/alice/spn/9'', launchID = 9)),
      promptRun = (\<lambda>label. Inl (Errorf [])),
      Network = None,
      ChainLaunch = (\<lambda>launchID. Inr ''launch''),
      Chain = (\<lambda>chainLaunch. None),
      Init = None,
      GenesisPath = Inr ''/home/alice/spn/42/config/genesis.json'',
      ParseGenesisFromPath = (\<lambda>path. Inr \<lparr>StakeDenom = ''stake''\<rparr>),
      Ask = specAsk (\<lambda>label. if label = ''Staking amount'' then ''50000000stake'' else []),
      InitAccount = (\<lambda>v account. Inr ''/home/alice/spn/42/config/gentx/gentx.json''),
      Bullet = ''*'',
      ParseCoinsNormalized =
        (\<lambda>s. if s = [] then Inr []
             else if s = ''1000stake'' then Inr [(''stake'', 1000)]
             else Inl (Errorf ''invalid decimal coin expression'')),
      UpdateCampaign = (\<lambda>campaignID proposals. None),
      Campaign = (\<lambda>campaignID. Inr ''campaign 7: testnet''),
      Marshal = (\<lambda>campaign. Inr campaign)\<rparr>"

text \<open>The same, with a remote system that rejects the submission.\<close>

definition rejecting :: "(string, string) env" where
  "rejecting = scenario\<lparr>UpdateCampaign := \<lambda>campaignID proposals. Some (Errorf ''rejected'')\<rparr>"

text \<open>The same, with a terminal on which the prompt cannot read.\<close>

definition brokenTerminal :: "(string, string) env" where
  "brokenTerminal =
     scenario\<lparr>promptRun := \<lambda>label. Inl (Errorf ''read /dev/stdin: input/output error'')\<rparr>"

text \<open>
  A command line with the given arguments and flags, \<open>--validator-account alice\<close>
  among them; a flag not given has its declared default, the empty string.
\<close>

definition cmdline :: "string list \<Rightarrow> (string \<times> string) list \<Rightarrow> Command" where
  "cmdline as flags =
     \<lparr>args = as,
      GetString = (\<lambda>name. case map_of ((flagValidatorAccount, ''alice'') # flags) name of
                            None \<Rightarrow> [] | Some s \<Rightarrow> s),
      getYes = False\<rparr>"

text \<open>The validator of scenario A.\<close>

definition validatorA :: Validator where
  "validatorA =
     \<lparr>Name = ''alice'', Moniker = [], StakingAmount = ''50000000stake'',
      CommissionRate = ''0.10'', CommissionMaxRate = ''0.20'',
      CommissionMaxChangeRate = ''0.01'', MinSelfDelegation = [],
      GasPrices = ''0stake'', Details = [], Identity = [], Website = [],
      SecurityContact = []\<rparr>"

section \<open>Facts about the model\<close>

lemmas flag_defs =
  flagCampaignName_def flagCampaignMetadata_def flagCampaignTotalSupply_def
  flagValidatorAccount_def flagValidatorWebsite_def flagValidatorDetails_def
  flagValidatorSecurityContact_def flagValidatorMoniker_def flagValidatorIdentity_def
  flagValidatorSelfDelegation_def flagValidatorGasPrice_def

lemmas campaign_run_defs =
  networkCampaignUpdateHandler_def campaignUpdateBody_def submitAndShow_def proposalsOf_def
  after_def deferCleanup_def Println_def Empty_def Let_def

lemmas chain_run_defs =
  networkChainInitHandler_def chainInitBody_def initAndGentx_def askValidatorInfo_def
  overwriteLabel_def after_def deferCleanup_def Println_def Let_def

lemmas example_defs =
  scenario_def rejecting_def brokenTerminal_def cmdline_def validatorA_def flag_defs

subsection \<open>The campaign update\<close>

lemma proposalsOf_spec:
  "proposalsOf campaignName metadata totalSupply = specProposals campaignName metadata totalSupply"
  by (simp add: proposalsOf_def specProposals_def Empty_def)



text \<open>
  A run that submits went through every earlier step without an error, and what it
  submits is the list built from the flags.
\<close>

lemma reaches_submission:
  assumes "EvUpdateCampaign campaignID ps \<in> set (fst (networkCampaignUpdateHandler env cmd))"
  shows "\<exists>totalSupply a rest.
           ParseCoinsNormalized env (GetString cmd flagCampaignTotalSupply) = Inr totalSupply \<and>
           newNetworkBuilder env = None \<and>
           args cmd = a # rest \<and>
           ParseID env a = Inr campaignID \<and>
           \<not> (GetString cmd flagCampaignName = [] \<and> GetString cmd flagCampaignMetadata = [] \<and>
              Empty totalSupply) \<and>
           Network env = None \<and>
           ps = proposalsOf (GetString cmd flagCampaignName) (GetString cmd flagCampaignMetadata)
                  totalSupply \<and>
           networkCampaignUpdateHandler env cmd =
             after [EvParseCoinsNormalized (GetString cmd flagCampaignTotalSupply), EvNewNetworkBuilder]
               (deferCleanup (after [EvParseID a, EvNetwork] (submitAndShow env campaignID ps)))"
  using assms
  apply (simp add: networkCampaignUpdateHandler_def campaignUpdateBody_def after_def
           deferCleanup_def Let_def
         split: sum.splits option.splits list.splits if_splits)
  apply (auto simp: submitAndShow_def after_def Println_def split: option.splits sum.splits)
  done

subsection \<open>The chain initialisation\<close>

lemma questions_eval:
  "questions =
     [\<lparr>question = ''Staking amount'', answer = FStakingAmount,
        defaultAnswer = Some ''95000000stake'', required = True\<rparr>,
      \<lparr>question = ''Commission rate'', answer = FCommissionRate,
        defaultAnswer = Some ''0.10'', required = True\<rparr>,
      \<lparr>question = ''Commission max rate'', answer = FCommissionMaxRate,
        defaultAnswer = Some ''0.20'', required = True\<rparr>,
      \<lparr>question = ''Commission max change rate'', answer = FCommissionMaxChangeRate,
        defaultAnswer = Some ''0.01'', required = True\<rparr>]"
  by (simp add: questions_def NewQuestion_def)

lemma store_other_GasPrices: "f \<noteq> FGasPrices \<Longrightarrow> GasPrices (store f s v) = GasPrices v"
  by (cases f) simp_all

text \<open>Whatever is written through pointers to other fields leaves the gas price alone.\<close>

lemma writeAnswers_keeps_GasPrices:
  "FGasPrices \<notin> answer ` set qs \<Longrightarrow> GasPrices (writeAnswers qs ws v) = GasPrices v"
proof (induction qs ws v rule: writeAnswers.induct)
  case (1 q qs w ws v)
  then have "answer q \<noteq> FGasPrices" and "FGasPrices \<notin> answer ` set qs"
    by auto
  with "1.IH" show ?case
    by (cases w) (simp_all add: store_other_GasPrices)
qed simp_all

lemma initAndGentx_no_prompt:
  "EvPromptRun label \<notin> set (fst (initAndGentx env cmd launchID validatorAccount))"
  by (simp add: initAndGentx_def after_def split: option.splits sum.splits prod.splits)

lemma initAndGentx_InitAccount:
  assumes "EvInitAccount v account \<in> set (fst (initAndGentx env cmd launchID validatorAccount))"
  shows "\<exists>genesisPath genesis.
           GenesisPath env = Inr genesisPath \<and>
           ParseGenesisFromPath env genesisPath = Inr genesis \<and>
           askValidatorInfo (Ask env) cmd (StakeDenom genesis) = (v, None) \<and>
           account = validatorAccount"
  using assms
  by (simp add: initAndGentx_def after_def split: option.splits sum.splits prod.splits)

text \<open>The validator handed to \<^verbatim>\<open>InitAccount\<close> is the one the quiz returned without error.\<close>

lemma chainInit_InitAccount:
  assumes "EvInitAccount v account \<in> set (fst (networkChainInitHandler env cmd))"
  shows "\<exists>genesisPath genesis.
           GenesisPath env = Inr genesisPath \<and>
           ParseGenesisFromPath env genesisPath = Inr genesis \<and>
           askValidatorInfo (Ask env) cmd (StakeDenom genesis) = (v, None) \<and>
           account = GetString cmd flagValidatorAccount"
  using assms
  by (auto simp: networkChainInitHandler_def chainInitBody_def after_def deferCleanup_def
        Let_def Println_def
      split: option.splits sum.splits prod.splits list.splits if_splits
      dest: initAndGentx_InitAccount)

text \<open>The prompt is run only for an existing home without the yes-flag, after the earlier checks.\<close>

lemma reaches_prompt:
  assumes "EvPromptRun label \<in> set (fst (networkChainInitHandler env cmd))"
  shows "\<exists>a rest launchID chainHome.
           newNetworkBuilder env = None \<and> args cmd = a # rest \<and> ParseID env a = Inr launchID \<and>
           GetByName env (GetString cmd flagValidatorAccount) = None \<and>
           IsChainHomeExist env launchID = Inr (chainHome, True) \<and> \<not> getYes cmd \<and>
           label = overwriteLabel chainHome"
  using assms
  by (auto simp: networkChainInitHandler_def chainInitBody_def after_def deferCleanup_def
        Let_def Println_def initAndGentx_no_prompt
      split: option.splits sum.splits prod.splits list.splits if_splits)

text \<open>The whole run when the prompt returns an error.\<close>

lemma declined_run:
  assumes "newNetworkBuilder env = None" and "args cmd = a # rest" and "ParseID env a = Inr launchID"
    and "GetByName env (GetString cmd flagValidatorAccount) = None"
    and "IsChainHomeExist env launchID = Inr (chainHome, True)" and "\<not> getYes cmd"
    and "promptRun env (overwriteLabel chainHome) = Inl e"
  shows "networkChainInitHandler env cmd =
           ([EvNewNetworkBuilder, EvParseID a, EvGetByName (GetString cmd flagValidatorAccount),
             EvIsChainHomeExist launchID, EvSpinnerStop, EvPromptRun (overwriteLabel chainHome),
             Println ''said no'', EvCleanup],
            Return None)"
  using assms
  by (simp add: networkChainInitHandler_def chainInitBody_def after_def deferCleanup_def)

lemma gentx_line_not_said_no:
  "b @ '' Gentx generated: '' @ p @ [CHR 0x0A] \<noteq> ''said no'' @ [CHR 0x0A]"
proof
  assume "b @ '' Gentx generated: '' @ p @ [CHR 0x0A] = ''said no'' @ [CHR 0x0A]"
  then have "length (b @ '' Gentx generated: '' @ p @ [CHR 0x0A]) = length (''said no'' @ [CHR 0x0A])"
    by (rule arg_cong)
  then show False
    by simp
qed

lemma initAndGentx_no_said_no:
  "Println ''said no'' \<notin> set (fst (initAndGentx env cmd launchID validatorAccount))"
  using gentx_line_not_said_no [of "Bullet env"]
  by (simp add: initAndGentx_def after_def Println_def split: option.splits sum.splits prod.splits)

lemma initAndGentx_nil:
  assumes "snd (initAndGentx env cmd launchID validatorAccount) = Return None"
  shows "\<exists>v gentxPath.
           EvInitAccount v validatorAccount
             \<in> set (fst (initAndGentx env cmd launchID validatorAccount)) \<and>
           InitAccount env v validatorAccount = Inr gentxPath \<and>
           EvPrint (Bullet env @ '' Gentx generated: '' @ gentxPath @ [CHR 0x0A])
             \<in> set (fst (initAndGentx env cmd launchID validatorAccount))"
  using assms
  by (auto simp: initAndGentx_def after_def
      split: option.split_asm sum.split_asm prod.split_asm)

text \<open>Only a run in which the prompt returned an error prints \<open>said no\<close>.\<close>

lemma said_no_only_declined:
  assumes "Println ''said no'' \<in> set (fst (networkChainInitHandler env cmd))"
  shows "\<exists>label e. EvPromptRun label \<in> set (fst (networkChainInitHandler env cmd)) \<and>
                   promptRun env label = Inl e"
  using assms
  by (auto simp: networkChainInitHandler_def chainInitBody_def after_def deferCleanup_def
        Let_def Println_def initAndGentx_no_said_no [unfolded Println_def, simplified]
      split: option.splits sum.splits prod.splits list.splits if_splits)

text \<open>A run that returns nil without a prompt that returned an error went through to the gentx.\<close>

lemma nil_not_declined_completes:
  assumes "snd (networkChainInitHandler env cmd) = Return None"
    and "\<forall>label. EvPromptRun label \<in> set (fst (networkChainInitHandler env cmd)) \<longrightarrow>
                 (\<exists>s. promptRun env label = Inr s)"
  shows "\<exists>v account gentxPath.
           EvInitAccount v account \<in> set (fst (networkChainInitHandler env cmd)) \<and>
           InitAccount env v account = Inr gentxPath \<and>
           EvPrint (Bullet env @ '' Gentx generated: '' @ gentxPath @ [CHR 0x0A])
             \<in> set (fst (networkChainInitHandler env cmd))"
proof -
  from assms(1) have nb: "newNetworkBuilder env = None"
    by (simp add: networkChainInitHandler_def after_def split: option.split_asm)
  then have run: "networkChainInitHandler env cmd =
      after [EvNewNetworkBuilder] (deferCleanup (chainInitBody env cmd))"
    by (simp add: networkChainInitHandler_def)
  from assms(1) obtain a rest launchID chainHome exist where
    h: "args cmd = a # rest" "ParseID env a = Inr launchID"
       "GetByName env (GetString cmd flagValidatorAccount) = None"
       "IsChainHomeExist env launchID = Inr (chainHome, exist)"
    unfolding run
    by (auto simp: chainInitBody_def after_def deferCleanup_def Let_def
        split: list.split_asm sum.split_asm option.split_asm)
  show ?thesis
  proof (cases "\<not> getYes cmd \<and> exist")
    case True
    with h have "EvPromptRun (overwriteLabel chainHome) \<in> set (fst (networkChainInitHandler env cmd))"
      unfolding run by (simp add: chainInitBody_def after_def deferCleanup_def Let_def)
    with assms(2) obtain s where s: "promptRun env (overwriteLabel chainHome) = Inr s"
      by blast
    with True h have body: "chainInitBody env cmd =
        after [EvParseID a, EvGetByName (GetString cmd flagValidatorAccount),
               EvIsChainHomeExist launchID, EvSpinnerStop, EvPromptRun (overwriteLabel chainHome),
               EvSpinnerStart]
          (initAndGentx env cmd launchID (GetString cmd flagValidatorAccount))"
      by (simp add: chainInitBody_def after_def Let_def)
    from assms(1) have "snd (initAndGentx env cmd launchID (GetString cmd flagValidatorAccount)) = Return None"
      unfolding run body by (simp add: after_def deferCleanup_def)
    from initAndGentx_nil [OF this] show ?thesis
      unfolding run body by (auto simp: after_def deferCleanup_def)
  next
    case False
    with h have body: "chainInitBody env cmd =
        after [EvParseID a, EvGetByName (GetString cmd flagValidatorAccount),
               EvIsChainHomeExist launchID]
          (initAndGentx env cmd launchID (GetString cmd flagValidatorAccount))"
      by (auto simp: chainInitBody_def after_def Let_def)
    from assms(1) have "snd (initAndGentx env cmd launchID (GetString cmd flagValidatorAccount)) = Return None"
      unfolding run body by (simp add: after_def deferCleanup_def)
    from initAndGentx_nil [OF this] show ?thesis
      unfolding run body by (auto simp: after_def deferCleanup_def)
  qed
qed

lemma scenario_decline_facts:
  "newNetworkBuilder scenario = None"
  "args (cmdline [''9''] []) = ''9'' # []"
  "ParseID scenario ''9'' = Inr 9"
  "GetByName scenario (GetString (cmdline [''9''] []) flagValidatorAccount) = None"
  "IsChainHomeExist scenario 9 = Inr (''/home/alice/spn/9'', True)"
  "\<not> getYes (cmdline [''9''] [])"
  "promptRun scenario (overwriteLabel ''/home/alice/spn/9'') = Inl (Errorf [])"
  by (simp_all add: example_defs)

section \<open>Claims about the campaign update\<close>

text \<open>
  C3, as stated, fails: with an empty name, empty metadata and a total supply that
  parses to the empty coin set, but a campaign identifier that does not parse, the
  handler returns the identifier's parsing error, not the error that no field was
  provided, because the identifier is parsed before the fields are checked.
\<close>

theorem no_fields_bad_id_counterexample:
  "GetString (cmdline [''abc''] []) flagCampaignName = [] \<and>
   GetString (cmdline [''abc''] []) flagCampaignMetadata = [] \<and>
   ParseCoinsNormalized scenario (GetString (cmdline [''abc''] []) flagCampaignTotalSupply) = Inr [] \<and>
   Empty [] \<and>
   networkCampaignUpdateHandler scenario (cmdline [''abc''] []) =
     ([EvParseCoinsNormalized [], EvNewNetworkBuilder, EvParseID ''abc'', EvCleanup],
      Return (Some (Errorf ''error parsing ID''))) \<and>
   snd (networkCampaignUpdateHandler scenario (cmdline [''abc''] [])) \<noteq>
     Return (Some (Errorf
       ''at least one of the flags name, metadata, total-supply must be provided''))"
  by (simp add: campaign_run_defs example_defs)

text \<open>
  C3, amended: in every campaign update whose name flag and metadata flag are
  empty and whose total-supply flag parses to the empty coin set, no network call is
  made: the network is not built, nothing is submitted and no campaign is fetched.
  When moreover the network builder is created and the campaign identifier parses,
  the handler returns the error that at least one of the flags name, metadata,
  total-supply must be provided, having done nothing else than parse the coins,
  create the builder, parse the identifier and run the deferred cleanup.
\<close>

theorem no_fields_rejected_before_network:
  assumes "GetString cmd flagCampaignName = []" and "GetString cmd flagCampaignMetadata = []"
    and "ParseCoinsNormalized env (GetString cmd flagCampaignTotalSupply) = Inr totalSupply"
    and "Empty totalSupply"
  shows "EvNetwork \<notin> set (fst (networkCampaignUpdateHandler env cmd)) \<and>
         (\<forall>i ps. EvUpdateCampaign i ps \<notin> set (fst (networkCampaignUpdateHandler env cmd))) \<and>
         (\<forall>i. EvCampaign i \<notin> set (fst (networkCampaignUpdateHandler env cmd))) \<and>
         (newNetworkBuilder env = None \<and> args cmd = a # rest \<and> ParseID env a = Inr campaignID \<longrightarrow>
            networkCampaignUpdateHandler env cmd =
              ([EvParseCoinsNormalized (GetString cmd flagCampaignTotalSupply), EvNewNetworkBuilder,
                EvParseID a, EvCleanup],
               Return (Some (Errorf
                 ''at least one of the flags name, metadata, total-supply must be provided''))))"
  using assms
  by (simp add: networkCampaignUpdateHandler_def campaignUpdateBody_def after_def deferCleanup_def
        flag_defs
      split: option.splits list.splits sum.splits)

theorem no_fields_rejected_before_network_witness:
  "GetString (cmdline [''7''] []) flagCampaignName = [] \<and>
   GetString (cmdline [''7''] []) flagCampaignMetadata = [] \<and>
   ParseCoinsNormalized scenario (GetString (cmdline [''7''] []) flagCampaignTotalSupply) = Inr [] \<and>
   Empty [] \<and>
   newNetworkBuilder scenario = None \<and> args (cmdline [''7''] []) = [''7''] \<and>
   ParseID scenario ''7'' = Inr 7 \<and>
   networkCampaignUpdateHandler scenario (cmdline [''7''] []) =
     ([EvParseCoinsNormalized [], EvNewNetworkBuilder, EvParseID ''7'', EvCleanup],
      Return (Some (Errorf
        ''at least one of the flags name, metadata, total-supply must be provided'')))"
  using no_fields_rejected_before_network [of "cmdline [''7''] []" scenario "[]" "''7''" "[]" 7]
  by (simp add: example_defs Empty_def)

text \<open>
  C4: for every choice of name, metadata and total supply, the list of propositions
  the handler builds has exactly one proposition for each field that is supplied
  non-empty and none for the others, in the order name, metadata, total supply, each
  carrying the supplied value; and whatever list the handler submits is that list for
  its flags.
\<close>

theorem proposals_one_per_supplied_field:
  "proposalsOf campaignName metadata totalSupply =
     map (propFor campaignName metadata totalSupply)
       (filter (supplied campaignName metadata totalSupply) [CName, CMetadata, CTotalSupply]) \<and>
   map propField (proposalsOf campaignName metadata totalSupply) =
     filter (supplied campaignName metadata totalSupply) [CName, CMetadata, CTotalSupply] \<and>
   (EvUpdateCampaign campaignID ps \<in> set (fst (networkCampaignUpdateHandler env cmd)) \<longrightarrow>
      (\<exists>coins. ParseCoinsNormalized env (GetString cmd flagCampaignTotalSupply) = Inr coins \<and>
         ps = specProposals (GetString cmd flagCampaignName) (GetString cmd flagCampaignMetadata)
                coins))"
proof (intro conjI impI)
  show "proposalsOf campaignName metadata totalSupply =
     map (propFor campaignName metadata totalSupply)
       (filter (supplied campaignName metadata totalSupply) [CName, CMetadata, CTotalSupply])"
    using proposalsOf_spec by (simp add: specProposals_def)
  show "map propField (proposalsOf campaignName metadata totalSupply) =
     filter (supplied campaignName metadata totalSupply) [CName, CMetadata, CTotalSupply]"
    by (simp add: proposalsOf_def Empty_def)
next
  assume "EvUpdateCampaign campaignID ps \<in> set (fst (networkCampaignUpdateHandler env cmd))"
  from reaches_submission [OF this]
  show "\<exists>coins. ParseCoinsNormalized env (GetString cmd flagCampaignTotalSupply) = Inr coins \<and>
         ps = specProposals (GetString cmd flagCampaignName) (GetString cmd flagCampaignMetadata)
                coins"
    by (auto simp: proposalsOf_spec)
qed

theorem proposals_one_per_supplied_field_witness:
  "EvUpdateCampaign 7 [WithCampaignName ''testnet'', WithCampaignTotalSupply [(''stake'', 1000)]]
     \<in> set (fst (networkCampaignUpdateHandler scenario
          (cmdline [''7''] [(flagCampaignName, ''testnet''), (flagCampaignTotalSupply, ''1000stake'')]))) \<and>
   ParseCoinsNormalized scenario ''1000stake'' = Inr [(''stake'', 1000)] \<and>
   [WithCampaignName ''testnet'', WithCampaignTotalSupply [(''stake'', 1000)]] =
     specProposals ''testnet'' [] [(''stake'', 1000)] \<and>
   proposalsOf ''testnet'' [] [(''stake'', 1000)] =
     [WithCampaignName ''testnet'', WithCampaignTotalSupply [(''stake'', 1000)]]"
  using proposals_one_per_supplied_field
    [of "''testnet''" "[]" "[(''stake'', 1000)]" 7
        "[WithCampaignName ''testnet'', WithCampaignTotalSupply [(''stake'', 1000)]]" scenario
        "cmdline [''7''] [(flagCampaignName, ''testnet''), (flagCampaignTotalSupply, ''1000stake'')]"]
  by (simp add: campaign_run_defs example_defs specProposals_def)

text \<open>
  C6: in every campaign update whose total-supply flag the coin parser rejects,
  the handler returns the parser's error and the parser's call is the only thing it
  has done: no network builder, no network call, no submission.
\<close>

theorem malformed_total_supply_fails_first:
  assumes "ParseCoinsNormalized env (GetString cmd flagCampaignTotalSupply) = Inl e"
  shows "networkCampaignUpdateHandler env cmd =
           ([EvParseCoinsNormalized (GetString cmd flagCampaignTotalSupply)], Return (Some e))"
  using assms by (simp add: networkCampaignUpdateHandler_def after_def)

theorem malformed_total_supply_fails_first_witness:
  "ParseCoinsNormalized scenario ''12..'' = Inl (Errorf ''invalid decimal coin expression'') \<and>
   networkCampaignUpdateHandler scenario
       (cmdline [''7''] [(flagCampaignName, ''testnet''), (flagCampaignTotalSupply, ''12..'')]) =
     ([EvParseCoinsNormalized ''12..''], Return (Some (Errorf ''invalid decimal coin expression'')))"
  using malformed_total_supply_fails_first
    [of scenario "cmdline [''7''] [(flagCampaignName, ''testnet''), (flagCampaignTotalSupply, ''12..'')]"
        "Errorf ''invalid decimal coin expression''"]
  by (simp add: example_defs)



text \<open>
  C10: the first thing every campaign update does is parse the total-supply flag;
  when the coin parser rejects it and the identifier argument is one the identifier
  parser rejects as well, the handler returns the coin parser's error and the
  identifier parser is never called.
\<close>

theorem coins_parsed_before_id:
  assumes "ParseCoinsNormalized env (GetString cmd flagCampaignTotalSupply) = Inl e"
    and "args cmd = a # rest" and "ParseID env a = Inl e'"
  shows "hd (fst (networkCampaignUpdateHandler env cmd)) =
           EvParseCoinsNormalized (GetString cmd flagCampaignTotalSupply) \<and>
         snd (networkCampaignUpdateHandler env cmd) = Return (Some e) \<and>
         (\<forall>s. EvParseID s \<notin> set (fst (networkCampaignUpdateHandler env cmd)))"
  using assms(1) by (simp add: networkCampaignUpdateHandler_def after_def)

theorem coins_parsed_before_id_witness:
  "ParseCoinsNormalized scenario ''12..'' = Inl (Errorf ''invalid decimal coin expression'') \<and>
   ParseID scenario ''abc'' = Inl (Errorf ''error parsing ID'') \<and>
   snd (networkCampaignUpdateHandler scenario
          (cmdline [''abc''] [(flagCampaignTotalSupply, ''12..'')])) =
     Return (Some (Errorf ''invalid decimal coin expression'')) \<and>
   EvParseID ''abc'' \<notin> set (fst (networkCampaignUpdateHandler scenario
          (cmdline [''abc''] [(flagCampaignTotalSupply, ''12..'')])))"
  using coins_parsed_before_id
    [of scenario "cmdline [''abc''] [(flagCampaignTotalSupply, ''12..'')]"
        "Errorf ''invalid decimal coin expression''" "''abc''" "[]" "Errorf ''error parsing ID''"]
  by (simp add: example_defs)

section \<open>Claims about the chain initialisation\<close>

text \<open>
  C1, as stated, fails: the question for the staking amount is built with the
  default answer \<open>95000000stake\<close>, so a user who enters nothing receives that value.
\<close>

theorem staking_amount_default_counterexample:
  "question (questions ! 0) = ''Staking amount'' \<and>
   answer (questions ! 0) = FStakingAmount \<and>
   defaultAnswer (questions ! 0) = Some ''95000000stake'' \<and>
   defaultAnswer (questions ! 0) \<noteq> None \<and>
   askValidatorInfo (specAsk (\<lambda>label. [])) (cmdline [''42''] []) ''stake'' =
     (\<lparr>Name = ''alice'', Moniker = [], StakingAmount = ''95000000stake'',
        CommissionRate = ''0.10'', CommissionMaxRate = ''0.20'',
        CommissionMaxChangeRate = ''0.01'', MinSelfDelegation = [],
        GasPrices = ''0stake'', Details = [], Identity = [], Website = [],
        SecurityContact = []\<rparr>, None)"
  by (simp add: questions_eval askValidatorInfo_def example_defs)

text \<open>
  C1, amended: in the validator onboarding flow the question for the staking amount
  has the default answer \<open>95000000stake\<close> and is required. With a quiz that
  behaves as the specification says, whenever the flow returns a validator without an
  error its staking amount is not empty, whatever the user entered, and so the
  validator the handler hands on to the generation of the gentx has a staking amount
  that is not empty.
\<close>

theorem staking_amount_default_and_required:
  "(\<forall>q \<in> set questions. answer q = FStakingAmount \<longrightarrow>
      question q = ''Staking amount'' \<and> defaultAnswer q = Some ''95000000stake'' \<and> required q) \<and>
   (\<exists>q \<in> set questions. answer q = FStakingAmount) \<and>
   (snd (askValidatorInfo (specAsk typed) cmd stakeDenom) = None \<longrightarrow>
      StakingAmount (fst (askValidatorInfo (specAsk typed) cmd stakeDenom)) \<noteq> []) \<and>
   (Ask env = specAsk typed \<longrightarrow>
    EvInitAccount v account \<in> set (fst (networkChainInitHandler env cmd)) \<longrightarrow>
      StakingAmount v \<noteq> [])"
proof (intro conjI)
  show "\<forall>q \<in> set questions. answer q = FStakingAmount \<longrightarrow>
      question q = ''Staking amount'' \<and> defaultAnswer q = Some ''95000000stake'' \<and> required q"
    by (simp add: questions_eval)
  show "\<exists>q \<in> set questions. answer q = FStakingAmount"
    by (simp add: questions_eval)
  show ask: "snd (askValidatorInfo (specAsk typed) cmd stakeDenom) = None \<longrightarrow>
      StakingAmount (fst (askValidatorInfo (specAsk typed) cmd stakeDenom)) \<noteq> []" for stakeDenom
    by (simp add: questions_eval askValidatorInfo_def Let_def)
  show "Ask env = specAsk typed \<longrightarrow>
    EvInitAccount v account \<in> set (fst (networkChainInitHandler env cmd)) \<longrightarrow>
      StakingAmount v \<noteq> []"
  proof (intro impI)
    assume spec: "Ask env = specAsk typed"
      and "EvInitAccount v account \<in> set (fst (networkChainInitHandler env cmd))"
    from chainInit_InitAccount [OF this(2)] obtain genesis :: Genesis where
      "askValidatorInfo (Ask env) cmd (StakeDenom genesis) = (v, None)"
      by blast
    with ask [of "StakeDenom genesis"] spec show "StakingAmount v \<noteq> []"
      by simp
  qed
qed

theorem staking_amount_default_and_required_witness:
  "\<lparr>question = ''Staking amount'', answer = FStakingAmount,
      defaultAnswer = Some ''95000000stake'', required = True\<rparr> \<in> set questions \<and>
   Ask scenario = specAsk (\<lambda>label. if label = ''Staking amount'' then ''50000000stake'' else []) \<and>
   snd (askValidatorInfo (Ask scenario) (cmdline [''42''] []) ''stake'') = None \<and>
   StakingAmount (fst (askValidatorInfo (Ask scenario) (cmdline [''42''] []) ''stake'')) \<noteq> [] \<and>
   EvInitAccount validatorA ''alice''
     \<in> set (fst (networkChainInitHandler scenario (cmdline [''42''] []))) \<and>
   StakingAmount validatorA \<noteq> []"
proof -
  have a: "EvInitAccount validatorA ''alice''
     \<in> set (fst (networkChainInitHandler scenario (cmdline [''42''] [])))"
    by (simp add: chain_run_defs questions_eval example_defs)
  have b: "Ask scenario =
      specAsk (\<lambda>label. if label = ''Staking amount'' then ''50000000stake'' else [])"
    by (simp add: scenario_def)
  have c: "snd (askValidatorInfo (Ask scenario) (cmdline [''42''] []) ''stake'') = None"
    by (simp add: b questions_eval askValidatorInfo_def Let_def)
  show ?thesis
    using staking_amount_default_and_required
      [of "\<lambda>label. if label = ''Staking amount'' then ''50000000stake'' else []"
          "cmdline [''42''] []" "''stake''" scenario validatorA "''alice''"] a b c
    by (simp add: questions_eval)
qed

text \<open>
  C2: in every chain initialisation that finds a prior workspace, without the
  yes-flag, in which the user declines the overwrite confirmation, the run ends with
  the declined outcome: it returns nil having printed the line \<open>said no\<close>. That
  outcome is distinguishable from a failure by the result, which is no error and no
  panic, and from a success by what is printed: a run that returns nil without a
  refused prompt has gone through to the generated gentx, has printed the gentx line
  and has never printed \<open>said no\<close>, which only a run with a refused prompt prints.
\<close>

theorem declined_outcome_distinguishable:
  assumes "newNetworkBuilder env = None" and "args cmd = a # rest" and "ParseID env a = Inr launchID"
    and "GetByName env (GetString cmd flagValidatorAccount) = None"
    and "IsChainHomeExist env launchID = Inr (chainHome, True)" and "\<not> getYes cmd"
    and "promptRun env (overwriteLabel chainHome) = Inl e"
  shows "snd (networkChainInitHandler env cmd) = Return None \<and>
         Println ''said no'' \<in> set (fst (networkChainInitHandler env cmd)) \<and>
         (\<forall>err. snd (networkChainInitHandler env' cmd') = Return (Some err) \<longrightarrow>
                snd (networkChainInitHandler env' cmd') \<noteq> snd (networkChainInitHandler env cmd)) \<and>
         (snd (networkChainInitHandler env' cmd') = Panic \<longrightarrow>
            snd (networkChainInitHandler env' cmd') \<noteq> snd (networkChainInitHandler env cmd)) \<and>
         (snd (networkChainInitHandler env' cmd') = Return None \<longrightarrow>
          (\<forall>label. EvPromptRun label \<in> set (fst (networkChainInitHandler env' cmd')) \<longrightarrow>
                   (\<exists>s. promptRun env' label = Inr s)) \<longrightarrow>
            Println ''said no'' \<notin> set (fst (networkChainInitHandler env' cmd')) \<and>
            fst (networkChainInitHandler env' cmd') \<noteq> fst (networkChainInitHandler env cmd) \<and>
            (\<exists>v account gentxPath.
               EvInitAccount v account \<in> set (fst (networkChainInitHandler env' cmd')) \<and>
               InitAccount env' v account = Inr gentxPath \<and>
               EvPrint (Bullet env' @ '' Gentx generated: '' @ gentxPath @ [CHR 0x0A])
                 \<in> set (fst (networkChainInitHandler env' cmd')))) \<and>
         (Println ''said no'' \<in> set (fst (networkChainInitHandler env' cmd')) \<longrightarrow>
            (\<exists>label e. EvPromptRun label \<in> set (fst (networkChainInitHandler env' cmd')) \<and>
                       promptRun env' label = Inl e))"
proof -
  have nil: "snd (networkChainInitHandler env cmd) = Return None"
    and said: "Println ''said no'' \<in> set (fst (networkChainInitHandler env cmd))"
    unfolding declined_run [OF assms] by simp_all
  have success: "Println ''said no'' \<notin> set (fst (networkChainInitHandler env' cmd')) \<and>
            fst (networkChainInitHandler env' cmd') \<noteq> fst (networkChainInitHandler env cmd) \<and>
            (\<exists>v account gentxPath.
               EvInitAccount v account \<in> set (fst (networkChainInitHandler env' cmd')) \<and>
               InitAccount env' v account = Inr gentxPath \<and>
               EvPrint (Bullet env' @ '' Gentx generated: '' @ gentxPath @ [CHR 0x0A])
                 \<in> set (fst (networkChainInitHandler env' cmd')))"
    if r: "snd (networkChainInitHandler env' cmd') = Return None"
      and p: "\<forall>label. EvPromptRun label \<in> set (fst (networkChainInitHandler env' cmd')) \<longrightarrow>
                   (\<exists>s. promptRun env' label = Inr s)"
  proof -
    have no: "Println ''said no'' \<notin> set (fst (networkChainInitHandler env' cmd'))"
    proof
      assume "Println ''said no'' \<in> set (fst (networkChainInitHandler env' cmd'))"
      from said_no_only_declined [OF this] obtain label e' where
        "EvPromptRun label \<in> set (fst (networkChainInitHandler env' cmd'))"
        "promptRun env' label = Inl e'"
        by blast
      with p show False
        by auto
    qed
    with said have "fst (networkChainInitHandler env' cmd') \<noteq> fst (networkChainInitHandler env cmd)"
      by auto
    with no nil_not_declined_completes [OF r p] show ?thesis
      by blast
  qed
  from nil said success said_no_only_declined [of env' cmd'] show ?thesis
    by simp
qed

theorem declined_outcome_distinguishable_witness:
  "snd (networkChainInitHandler scenario (cmdline [''9''] [])) = Return None \<and>
   Println ''said no'' \<in> set (fst (networkChainInitHandler scenario (cmdline [''9''] []))) \<and>
   snd (networkChainInitHandler scenario (cmdline [''abc''] [])) =
     Return (Some (Errorf ''error parsing ID'')) \<and>
   snd (networkChainInitHandler scenario (cmdline [''abc''] [])) \<noteq>
     snd (networkChainInitHandler scenario (cmdline [''9''] [])) \<and>
   snd (networkChainInitHandler scenario (cmdline [''42''] [])) = Return None \<and>
   Println ''said no'' \<notin> set (fst (networkChainInitHandler scenario (cmdline [''42''] []))) \<and>
   fst (networkChainInitHandler scenario (cmdline [''42''] [])) \<noteq>
     fst (networkChainInitHandler scenario (cmdline [''9''] [])) \<and>
   EvPrint (''* Gentx generated: /home/alice/spn/42/config/gentx/gentx.json'' @ [CHR 0x0A])
     \<in> set (fst (networkChainInitHandler scenario (cmdline [''42''] [])))"
proof -
  have failed: "snd (networkChainInitHandler scenario (cmdline [''abc''] [])) =
      Return (Some (Errorf ''error parsing ID''))"
    by (simp add: chain_run_defs example_defs)
  have completed: "snd (networkChainInitHandler scenario (cmdline [''42''] [])) = Return None"
    by (simp add: chain_run_defs questions_eval example_defs)
  have unprompted: "\<forall>label. EvPromptRun label
        \<in> set (fst (networkChainInitHandler scenario (cmdline [''42''] []))) \<longrightarrow>
      (\<exists>s. promptRun scenario label = Inr s)"
    by (simp add: chain_run_defs questions_eval example_defs)
  have line: "EvPrint (''* Gentx generated: /home/alice/spn/42/config/gentx/gentx.json'' @ [CHR 0x0A])
     \<in> set (fst (networkChainInitHandler scenario (cmdline [''42''] [])))"
    by (simp add: chain_run_defs questions_eval example_defs)
  show ?thesis
    using declined_outcome_distinguishable
            [OF scenario_decline_facts, of scenario "cmdline [''abc''] []"]
          declined_outcome_distinguishable
            [OF scenario_decline_facts, of scenario "cmdline [''42''] []"]
          failed completed unprompted line
    by simp
qed

text \<open>
  C5: in every chain initialisation that finds a prior workspace, without the
  yes-flag, in which the user declines the overwrite confirmation, the launch record
  is not fetched and nothing writes to the workspace: after the prompt the run only
  prints \<open>said no\<close> and runs the deferred cleanup, so the network is not built,
  no chain is constructed, nothing is initialised and no account or gentx is created.
\<close>

theorem declined_no_fetch_no_init:
  assumes "newNetworkBuilder env = None" and "args cmd = a # rest" and "ParseID env a = Inr launchID"
    and "GetByName env (GetString cmd flagValidatorAccount) = None"
    and "IsChainHomeExist env launchID = Inr (chainHome, True)" and "\<not> getYes cmd"
    and "promptRun env (overwriteLabel chainHome) = Inl e"
  shows "fst (networkChainInitHandler env cmd) =
           [EvNewNetworkBuilder, EvParseID a, EvGetByName (GetString cmd flagValidatorAccount),
            EvIsChainHomeExist launchID, EvSpinnerStop, EvPromptRun (overwriteLabel chainHome),
            Println ''said no'', EvCleanup] \<and>
         EvNetwork \<notin> set (fst (networkChainInitHandler env cmd)) \<and>
         (\<forall>i. EvChainLaunch i \<notin> set (fst (networkChainInitHandler env cmd))) \<and>
         (\<forall>l. EvChain l \<notin> set (fst (networkChainInitHandler env cmd))) \<and>
         EvInit \<notin> set (fst (networkChainInitHandler env cmd)) \<and>
         (\<forall>v account. EvInitAccount v account \<notin> set (fst (networkChainInitHandler env cmd)))"
  unfolding declined_run [OF assms]
  by (simp add: Println_def)

theorem declined_no_fetch_no_init_witness:
  "newNetworkBuilder scenario = None \<and> args (cmdline [''9''] []) = [''9''] \<and>
   ParseID scenario ''9'' = Inr 9 \<and>
   GetByName scenario (GetString (cmdline [''9''] []) flagValidatorAccount) = None \<and>
   IsChainHomeExist scenario 9 = Inr (''/home/alice/spn/9'', True) \<and>
   \<not> getYes (cmdline [''9''] []) \<and>
   promptRun scenario (overwriteLabel ''/home/alice/spn/9'') = Inl (Errorf []) \<and>
   fst (networkChainInitHandler scenario (cmdline [''9''] [])) =
     [EvNewNetworkBuilder, EvParseID ''9'', EvGetByName ''alice'', EvIsChainHomeExist 9,
      EvSpinnerStop, EvPromptRun (overwriteLabel ''/home/alice/spn/9''),
      Println ''said no'', EvCleanup] \<and>
   EvChainLaunch 9 \<notin> set (fst (networkChainInitHandler scenario (cmdline [''9''] [])))"
proof -
  have account: "GetString (cmdline [''9''] []) flagValidatorAccount = ''alice''"
    by (simp add: cmdline_def)
  show ?thesis
    using declined_no_fetch_no_init [OF scenario_decline_facts] scenario_decline_facts account
    by (simp add: Println_def)
qed

text \<open>
  C8: the gas price is not among the fields the questions of the quiz write to, and
  when the gas-price flag is empty the validator the flow returns has the gas price
  \<open>0\<close> followed by the stake denomination it was given, whatever the quiz did;
  in the handler that denomination is the one of the genesis parsed from the chain's
  genesis path, so the validator handed on to the generation of the gentx has it.
\<close>

theorem gas_price_derived_not_prompted:
  "FGasPrices \<notin> answer ` set questions \<and>
   (GetString cmd flagValidatorGasPrice = [] \<longrightarrow>
      GasPrices (fst (askValidatorInfo ask cmd stakeDenom)) = ''0'' @ stakeDenom) \<and>
   (GetString cmd flagValidatorGasPrice = [] \<longrightarrow>
    EvInitAccount v account \<in> set (fst (networkChainInitHandler env cmd)) \<longrightarrow>
      (\<exists>genesisPath genesis.
         GenesisPath env = Inr genesisPath \<and> ParseGenesisFromPath env genesisPath = Inr genesis \<and>
         GasPrices v = ''0'' @ StakeDenom genesis))"
proof (intro conjI impI)
  show notq: "FGasPrices \<notin> answer ` set questions"
    by (simp add: questions_eval)
  show ask: "GasPrices (fst (askValidatorInfo ask cmd stakeDenom)) = ''0'' @ stakeDenom"
    if "GetString cmd flagValidatorGasPrice = []" for ask stakeDenom
    using that by (simp add: askValidatorInfo_def Let_def writeAnswers_keeps_GasPrices [OF notq])
  assume g: "GetString cmd flagValidatorGasPrice = []"
    and "EvInitAccount v account \<in> set (fst (networkChainInitHandler env cmd))"
  from chainInit_InitAccount [OF this(2)] obtain genesisPath and genesis :: Genesis where
    *: "GenesisPath env = Inr genesisPath" "ParseGenesisFromPath env genesisPath = Inr genesis"
       "askValidatorInfo (Ask env) cmd (StakeDenom genesis) = (v, None)"
    by blast
  from ask [OF g, of "Ask env" "StakeDenom genesis"] *(3)
  have "GasPrices v = ''0'' @ StakeDenom genesis"
    by simp
  with * show "\<exists>genesisPath genesis.
         GenesisPath env = Inr genesisPath \<and> ParseGenesisFromPath env genesisPath = Inr genesis \<and>
         GasPrices v = ''0'' @ StakeDenom genesis"
    by blast
qed

theorem gas_price_derived_not_prompted_witness:
  "GetString (cmdline [''42''] []) flagValidatorGasPrice = [] \<and>
   EvInitAccount validatorA ''alice''
     \<in> set (fst (networkChainInitHandler scenario (cmdline [''42''] []))) \<and>
   ParseGenesisFromPath scenario ''/home/alice/spn/42/config/genesis.json'' =
     Inr \<lparr>StakeDenom = ''stake''\<rparr> \<and>
   GasPrices validatorA = ''0stake'' \<and>
   GasPrices (fst (askValidatorInfo (Ask scenario) (cmdline [''42''] []) ''stake'')) = ''0stake''"
proof -
  have a: "EvInitAccount validatorA ''alice''
     \<in> set (fst (networkChainInitHandler scenario (cmdline [''42''] [])))"
    by (simp add: chain_run_defs questions_eval example_defs)
  have b: "GetString (cmdline [''42''] []) flagValidatorGasPrice = []"
    by (simp add: cmdline_def flag_defs)
  show ?thesis
    using gas_price_derived_not_prompted
      [of "cmdline [''42''] []" "Ask scenario" "''stake''" validatorA "''alice''" scenario] a b
    by (simp add: scenario_def validatorA_def)
qed

text \<open>
  C9: in every chain initialisation that runs the overwrite confirmation, whatever
  error the prompt returns, a declined confirmation or a failure of the terminal
  alike, the handler prints \<open>said no\<close>, runs the deferred cleanup and returns nil;
  the prompt's error is not returned.
\<close>

theorem prompt_error_never_propagated:
  assumes "EvPromptRun label \<in> set (fst (networkChainInitHandler env cmd))"
    and "promptRun env label = Inl e"
  shows "snd (networkChainInitHandler env cmd) = Return None \<and>
         snd (networkChainInitHandler env cmd) \<noteq> Return (Some e) \<and>
         (\<exists>before. fst (networkChainInitHandler env cmd) =
                     before @ [EvPromptRun label, Println ''said no'', EvCleanup])"
proof -
  from reaches_prompt [OF assms(1)] obtain a rest launchID chainHome where
    h: "newNetworkBuilder env = None" "args cmd = a # rest" "ParseID env a = Inr launchID"
       "GetByName env (GetString cmd flagValidatorAccount) = None"
       "IsChainHomeExist env launchID = Inr (chainHome, True)" "\<not> getYes cmd"
    and label: "label = overwriteLabel chainHome"
    by blast
  from assms(2) label have "promptRun env (overwriteLabel chainHome) = Inl e"
    by simp
  from declined_run [OF h this] label show ?thesis
    by simp
qed

theorem prompt_error_never_propagated_witness:
  "EvPromptRun (overwriteLabel ''/home/alice/spn/9'')
     \<in> set (fst (networkChainInitHandler brokenTerminal (cmdline [''9''] []))) \<and>
   promptRun brokenTerminal (overwriteLabel ''/home/alice/spn/9'') =
     Inl (Errorf ''read /dev/stdin: input/output error'') \<and>
   snd (networkChainInitHandler brokenTerminal (cmdline [''9''] [])) = Return None"
proof -
  have a: "EvPromptRun (overwriteLabel ''/home/alice/spn/9'')
     \<in> set (fst (networkChainInitHandler brokenTerminal (cmdline [''9''] [])))"
    by (simp add: networkChainInitHandler_def chainInitBody_def after_def deferCleanup_def
          example_defs)
  have b: "promptRun brokenTerminal (overwriteLabel ''/home/alice/spn/9'') =
     Inl (Errorf ''read /dev/stdin: input/output error'')"
    by (simp add: brokenTerminal_def scenario_def)
  show ?thesis
    using prompt_error_never_propagated [OF a b] a b by simp
qed

end
